theory Spec2Isabelle
  imports Main
begin

section \<open>Shared data and observable effects\<close>

text \<open>
  The renderer components are event handlers over component-local view state. Each
  handler is embedded as a function from the state at the time of the event (and the
  answers of the remote API) to the state after it, together with the list of effects
  it performed, in program order: toasts, network calls and calls of the callbacks the
  parent passed in.

  A JavaScript value of type \<open>string | undefined\<close> (the value read through an
  optional chain such as \<open>usernameRef.current?.value\<close>, or an optional field of a
  fetched object) is a \<open>string option\<close>; \<open>None\<close> is \<open>undefined\<close>.
\<close>

text \<open>
  \<open>UserInfo\<close> is declared in \<open>lib/interfaces\<close>; the components read its fields
  \<open>id\<close> and \<open>username\<close> (here \<open>info_id\<close>, \<open>info_username\<close>, as \<open>id\<close> is a
  constant of HOL).
\<close>

record UserInfo =
  info_id :: int
  info_username :: string

text \<open>
  \<open>ProfileInterface\<close> is declared in \<open>lib/interfaces\<close>; the profile page reads
  \<open>username\<close> and \<open>description\<close>, and tests \<open>username\<close> for truthiness, so both
  are fields that may be missing.
\<close>

record ProfileInterface =
  username :: "string option"
  description :: "string option"

text \<open>A \<open>Blob\<close> is an opaque sequence of bytes; a \<open>Blob\<close> object is always truthy.\<close>

datatype blob = Blob "nat list"

text \<open>
  \<open>toast.loading\<close> returns the identifier of the toast it opened; a later
  \<open>toast.success\<close> or \<open>toast.error\<close> that passes \<open>{ id: toastId }\<close> replaces that
  toast (\<open>Loading_id\<close>), one without opens a toast of its own (\<open>Fresh\<close>).
\<close>

datatype toast_ref = Fresh | Loading_id

datatype effect =
    ToastLoading string
  | ToastSuccess string toast_ref
  | ToastError string toast_ref
  | ToastDismiss
  | NetRegister string string string
  | NetLogin string string
  | NetVerify2FA string string
  | NetGetUserProfile int
  | NetUpdateSettings string string
  | NetUpdateAvatar blob
  | UpdateUser UserInfo
  | CloseModal
  | Confirm string

fun is_network_call :: "effect \<Rightarrow> bool" where
  "is_network_call (NetRegister _ _ _) = True"
| "is_network_call (NetLogin _ _) = True"
| "is_network_call (NetVerify2FA _ _) = True"
| "is_network_call (NetGetUserProfile _) = True"
| "is_network_call (NetUpdateSettings _ _) = True"
| "is_network_call (NetUpdateAvatar _) = True"
| "is_network_call _ = False"

definition network_calls :: "effect list \<Rightarrow> effect list" where
  "network_calls es = filter is_network_call es"

text \<open>A notice of success or of failure (a loading toast is neither).\<close>

fun is_notice :: "effect \<Rightarrow> bool" where
  "is_notice (ToastSuccess _ _) = True"
| "is_notice (ToastError _ _) = True"
| "is_notice _ = False"

definition notices :: "effect list \<Rightarrow> effect list" where
  "notices es = filter is_notice es"

fun is_UpdateUser :: "effect \<Rightarrow> bool" where
  "is_UpdateUser (UpdateUser _) = True"
| "is_UpdateUser _ = False"


text \<open>JavaScript truthiness of a \<open>string | undefined\<close>: \<open>undefined\<close> and \<open>""\<close> are falsy.\<close>

fun falsy :: "string option \<Rightarrow> bool" where
  "falsy None = True"
| "falsy (Some v) = (v = [])"

text \<open>
  Modelled from the spec: the \<open>updateUser\<close> callback is implemented by the parent of
  the auth modal, which is not among the sources. The spec has the global session
  value "replaced wholesale on login" and written only by the login and 2FA flows, with
  an explicit empty (unauthenticated) value: the session after a handler ran is the
  argument of its last \<open>updateUser\<close> call, or the session before when it made none.
\<close>

fun session_after :: "effect list \<Rightarrow> UserInfo option \<Rightarrow> UserInfo option" where
  "session_after [] sess = sess"
| "session_after (UpdateUser info # es) sess = session_after es (Some info)"
| "session_after (_ # es) sess = session_after es sess"

section \<open>The auth modal (Layout/AuthModal.tsx)\<close>

text \<open>
  The state of the component: the three input refs (the current value of the input,
  \<open>None\<close> while the input is not mounted) and the four \<open>useState\<close> cells.
\<close>

record AuthModal =
  usernameRef :: "string option"
  passwordRef :: "string option"
  repeatPasswordRef :: "string option"
  email :: string
  isUserRegistering :: bool
  isTwoFAEnabled :: bool
  twoFACode :: string

text \<open>
  The helpers of \<open>lib/auth\<close>, as the answers they give: \<open>register\<close> and \<open>login\<close>
  resolve to a status code, \<open>verify2FA\<close> to a boolean, \<open>getUserInfo\<close> returns a
  \<open>UserInfo\<close> or \<open>null\<close>.
\<close>

record auth_api =
  register :: "string \<Rightarrow> string \<Rightarrow> string \<Rightarrow> int"
  login :: "string \<Rightarrow> string \<Rightarrow> int"
  verify2FA :: "string \<Rightarrow> string \<Rightarrow> bool"
  getUserInfo :: "UserInfo option"

text \<open>Which of the three forms the component renders (the nested conditional of the JSX).\<close>

datatype modal_view = Login | Register | TwoFactorChallenge

definition modal_view_of :: "AuthModal \<Rightarrow> modal_view" where
  "modal_view_of s =
     (if isTwoFAEnabled s then TwoFactorChallenge
      else if isUserRegistering s then Register
      else Login)"

definition initial_AuthModal :: AuthModal where
  "initial_AuthModal =
     \<lparr>usernameRef = None, passwordRef = None, repeatPasswordRef = None, email = [],
      isUserRegistering = False, isTwoFAEnabled = False, twoFACode = []\<rparr>"

definition changeAuthMethodHandler :: "AuthModal \<Rightarrow> AuthModal" where
  "changeAuthMethodHandler s = s\<lparr>isUserRegistering := \<not> isUserRegistering s\<rparr>"

definition handleRegister :: "auth_api \<Rightarrow> AuthModal \<Rightarrow> AuthModal \<times> effect list" where
  "handleRegister api s =
     (if falsy (usernameRef s) \<or> email s = [] \<or> falsy (passwordRef s) then (s, [])
      else if passwordRef s \<noteq> repeatPasswordRef s then
        (s, [ToastError ''Passwords do not match'' Fresh])
      else
        (case (usernameRef s, passwordRef s) of
           (Some u, Some p) \<Rightarrow>
             (let status = register api u (email s) p in
              if status = 201 then
                (s\<lparr>isUserRegistering := False\<rparr>,
                 [ToastLoading ''Registering...'', NetRegister u (email s) p,
                  ToastSuccess ''Successfully registered'' Loading_id])
              else
                (s, [ToastLoading ''Registering...'', NetRegister u (email s) p,
                     ToastError ''Failed to register'' Loading_id]))
         | _ \<Rightarrow> (s, [])))"

text \<open>\<open>const info = getUserInfo(); if (info) updateUser(info); closeModal();\<close>\<close>

definition propagate_and_close :: "auth_api \<Rightarrow> effect list" where
  "propagate_and_close api =
     (case getUserInfo api of
        Some info \<Rightarrow> [UpdateUser info, CloseModal]
      | None \<Rightarrow> [CloseModal])"

definition handleLogin :: "auth_api \<Rightarrow> AuthModal \<Rightarrow> AuthModal \<times> effect list" where
  "handleLogin api s =
     (if email s = [] \<or> falsy (passwordRef s) then (s, [])
      else
        (case passwordRef s of
           Some p \<Rightarrow>
             (let status = login api (email s) p in
              if status = 600 then
                (s\<lparr>isTwoFAEnabled := True\<rparr>,
                 [ToastLoading ''Logging in...'', NetLogin (email s) p, ToastDismiss])
              else if status = 200 then
                (s, [ToastLoading ''Logging in...'', NetLogin (email s) p,
                     ToastSuccess ''Successfully logged in'' Loading_id]
                    @ propagate_and_close api)
              else if status = 403 then
                (s, [ToastLoading ''Logging in...'', NetLogin (email s) p,
                     ToastError ''Wrong email or password!'' Loading_id])
              else
                (s, [ToastLoading ''Logging in...'', NetLogin (email s) p,
                     ToastError ''Failed to log in'' Loading_id]))
         | None \<Rightarrow> (s, [])))"

definition handleAuthCodeState :: "string \<Rightarrow> AuthModal \<Rightarrow> AuthModal" where
  "handleAuthCodeState res s = s\<lparr>twoFACode := res\<rparr>"

text \<open>\<open>email || ""\<close> is \<open>email\<close> for every string.\<close>

definition submit2FA :: "auth_api \<Rightarrow> AuthModal \<Rightarrow> AuthModal \<times> effect list" where
  "submit2FA api s =
     (if length (twoFACode s) \<noteq> 6 then (s, [])
      else
        (let response = verify2FA api (email s) (twoFACode s) in
         if response then
           (s, [ToastLoading ''Logging in...'', NetVerify2FA (email s) (twoFACode s),
                ToastSuccess ''Successfully logged in'' Loading_id]
               @ propagate_and_close api)
         else
           (s, [ToastLoading ''Logging in...'', NetVerify2FA (email s) (twoFACode s)])))"

section \<open>The new-environment wizard (NewEnviroment)\<close>

text \<open>
  The \<open>useState\<close> cells of the wizard. \<open>stage\<close> is a JavaScript number; the
  tags are label/value pairs, edited by the \<open>TagInput\<close> component.
\<close>

record NewEnviroment =
  stage :: int
  enviromentName :: string
  tags :: "(string \<times> string) list"
  isPrivate :: bool

definition initial_NewEnviroment :: NewEnviroment where
  "initial_NewEnviroment = \<lparr>stage = 1, enviromentName = [], tags = [], isPrivate = False\<rparr>"

text \<open>
  What the user can do to the stage: click one of the three stage indicators, or press
  Back, Next or Create.
\<close>

datatype wizard_op = Indicator1 | Indicator2 | Indicator3 | Back | Next | Create

text \<open>
  The indicators are always rendered; Back is rendered under \<open>stage !== 1\<close>, Next
  under \<open>stage !== 3\<close> and Create in the other branch of that conditional.
\<close>

fun available :: "NewEnviroment \<Rightarrow> wizard_op \<Rightarrow> bool" where
  "available s Indicator1 = True"
| "available s Indicator2 = True"
| "available s Indicator3 = True"
| "available s Back = (stage s \<noteq> 1)"
| "available s Next = (stage s \<noteq> 3)"
| "available s Create = (\<not> stage s \<noteq> 3)"

text \<open>The \<open>onClick\<close> handlers; \<open>formSubmitHandler\<close> has an empty body.\<close>

fun perform :: "NewEnviroment \<Rightarrow> wizard_op \<Rightarrow> NewEnviroment" where
  "perform s Indicator1 = s\<lparr>stage := 1\<rparr>"
| "perform s Indicator2 = s\<lparr>stage := 2\<rparr>"
| "perform s Indicator3 = s\<lparr>stage := 3\<rparr>"
| "perform s Back = s\<lparr>stage := stage s - 1\<rparr>"
| "perform s Next = s\<lparr>stage := stage s + 1\<rparr>"
| "perform s Create = s"

text \<open>
  A sequence of operations, each one available in the state the one before it left;
  \<open>None\<close> when the sequence asks for a control that is not rendered.
\<close>

fun run_wizard :: "NewEnviroment \<Rightarrow> wizard_op list \<Rightarrow> NewEnviroment option" where
  "run_wizard s [] = Some s"
| "run_wizard s (w # ws) = (if available s w then run_wizard (perform s w) ws else None)"

section \<open>The profile page (Profile)\<close>

datatype site = Main | Rules | Rulesets | Enviroments

text \<open>
  The \<open>useState\<close> cells, the values of the two inputs of the settings form
  (\<open>usernameRef\<close>, here \<open>usernameRef'\<close>, and \<open>descriptionRef\<close>; \<open>None\<close> while the
  form is not mounted), and the numeric route parameter \<open>+userId\<close>.
\<close>

record Profile =
  userData :: "ProfileInterface option"
  site :: site
  isUserChangingSettings :: bool
  isUserAddingContent :: bool
  isUserChangingAvatar :: bool
  avatarUrl :: string
  avatarBlob :: "blob option"
  usernameRef' :: "string option"
  descriptionRef :: "string option"
  userId :: int

text \<open>
  The helpers of \<open>lib/user\<close> as the answers they give, and the answer of the user to
  the browser's \<open>confirm\<close> dialog.
\<close>

record profile_api =
  getUserProfile :: "int \<Rightarrow> ProfileInterface"
  updateSettings :: "string \<Rightarrow> string \<Rightarrow> bool"
  updateAvatar :: "blob \<Rightarrow> bool"
  confirm :: "string \<Rightarrow> bool"

definition initial_Profile :: "int \<Rightarrow> Profile" where
  "initial_Profile uid =
     \<lparr>userData = None, site = Main, isUserChangingSettings = False,
      isUserAddingContent = False, isUserChangingAvatar = False, avatarUrl = [],
      avatarBlob = None, usernameRef' = None, descriptionRef = None, userId = uid\<rparr>"

text \<open>\<open>userData?.username\<close> and \<open>userData?.description\<close>.\<close>

definition snapshot_username :: "Profile \<Rightarrow> string option" where
  "snapshot_username s = (case userData s of None \<Rightarrow> None | Some d \<Rightarrow> username d)"

definition snapshot_description :: "Profile \<Rightarrow> string option" where
  "snapshot_description s = (case userData s of None \<Rightarrow> None | Some d \<Rightarrow> description d)"

definition fetchData :: "profile_api \<Rightarrow> Profile \<Rightarrow> Profile \<times> effect list" where
  "fetchData api s =
     (let data = getUserProfile api (userId s) in
      if \<not> falsy (username data) then (s\<lparr>userData := Some data\<rparr>, [NetGetUserProfile (userId s)])
      else (s, [NetGetUserProfile (userId s)]))"

definition unsaved_prompt :: string where
  "unsaved_prompt =
     ''You have unsaved changes! Do you want to close settings? Unsaved changes will be lost.''"

definition handleReactingWithSettings :: "profile_api \<Rightarrow> Profile \<Rightarrow> Profile \<times> effect list" where
  "handleReactingWithSettings api s =
     (if \<not> isUserChangingSettings s then (s\<lparr>isUserChangingSettings := True\<rparr>, [])
      else
        (case (usernameRef' s, descriptionRef s) of
           (Some u, Some d) \<Rightarrow>
             if Some u = snapshot_username s \<and> Some d = snapshot_description s
                \<and> avatarBlob s = None
             then (s\<lparr>isUserChangingSettings := False\<rparr>, [])
             else if confirm api unsaved_prompt then
               (s\<lparr>avatarBlob := None, isUserChangingSettings := False\<rparr>,
                [Confirm unsaved_prompt])
             else (s, [Confirm unsaved_prompt])
         | _ \<Rightarrow> (s, [])))"

text \<open>
  \<open>handleAvatarChange\<close> uploads the pending blob as \<open>avatar.png\<close> and reports the
  outcome in a toast of its own.
\<close>

definition handleAvatarChange :: "profile_api \<Rightarrow> Profile \<Rightarrow> effect list" where
  "handleAvatarChange api s =
     (case avatarBlob s of
        None \<Rightarrow> []
      | Some b \<Rightarrow>
          [NetUpdateAvatar b,
           if updateAvatar api b then ToastSuccess ''Avatar updated succesfully'' Fresh
           else ToastError ''Failed to save avatar'' Fresh])"

text \<open>
  \<open>handleSaveSettings\<close> awaits \<open>updateSettings\<close> only: \<open>handleAvatarChange()\<close> and
  \<open>fetchData()\<close> are started and not awaited. The calls are issued in the order
  written here; the two continuations (the avatar toast, the replacement of the
  snapshot) run when their answers arrive and touch different things, so they are
  listed with their calls.
\<close>

definition handleSaveSettings :: "profile_api \<Rightarrow> Profile \<Rightarrow> Profile \<times> effect list" where
  "handleSaveSettings api s =
     (case (usernameRef' s, descriptionRef s) of
        (Some u, Some d) \<Rightarrow>
          if u = [] then (s, [ToastError ''Username can't be empty!'' Fresh])
          else if Some d = snapshot_description s \<and> Some u = snapshot_username s
                  \<and> avatarBlob s = None
          then (s\<lparr>isUserChangingSettings := False\<rparr>, [])
          else
            (let isSettingsStatusOk = updateSettings api u d;
                 started = [ToastLoading ''Updating...'', NetUpdateSettings u d]
                           @ (if avatarBlob s \<noteq> None then handleAvatarChange api s else [])
             in if isSettingsStatusOk then
                  (let (s', fetched) = fetchData api s in
                   (s'\<lparr>isUserChangingSettings := False\<rparr>,
                    started @ [ToastSuccess ''Settings saved!'' Loading_id] @ fetched))
                else (s, started @ [ToastError ''Failed to save settings!'' Loading_id]))
      | _ \<Rightarrow> (s, []))"

text \<open>
  The crop editor's confirmation: \<open>canvas.toBlob\<close> hands the cropped image (or
  \<open>null\<close>) to a callback that stores it with its object URL; the editor is closed
  either way. (The editor is mounted while its confirm button can be pressed, so
  \<open>newAvatarRef.current\<close> is set.)
\<close>

definition saveAvatarImage :: "blob option \<Rightarrow> string \<Rightarrow> Profile \<Rightarrow> Profile" where
  "saveAvatarImage produced url s =
     (case produced of
        None \<Rightarrow> s\<lparr>isUserChangingAvatar := False\<rparr>
      | Some b \<Rightarrow> s\<lparr>avatarUrl := url, avatarBlob := Some b, isUserChangingAvatar := False\<rparr>)"

text \<open>
  Everything that changes the state of the page: the mount effect (\<open>fetchData\<close>), the
  settings icon, the Save button, the user typing into the settings form (or the form
  being mounted and unmounted), a confirmed crop, a tab click, the toggles of the two
  modals, and the effect that leaves editing when the session has no user id.
\<close>

datatype profile_event =
    Mounted profile_api
  | SettingsClicked profile_api
  | SaveClicked profile_api
  | FormChanged "string option" "string option"
  | CropConfirmed "blob option" string
  | TabClicked site
  | AddingContentToggled
  | ChangingAvatarToggled
  | SessionWithoutId

fun profile_step :: "Profile \<Rightarrow> profile_event \<Rightarrow> Profile" where
  "profile_step s (Mounted api) = fst (fetchData api s)"
| "profile_step s (SettingsClicked api) = fst (handleReactingWithSettings api s)"
| "profile_step s (SaveClicked api) = fst (handleSaveSettings api s)"
| "profile_step s (FormChanged u d) = s\<lparr>usernameRef' := u, descriptionRef := d\<rparr>"
| "profile_step s (CropConfirmed produced url) = saveAvatarImage produced url s"
| "profile_step s (TabClicked t) = s\<lparr>site := t\<rparr>"
| "profile_step s AddingContentToggled = s\<lparr>isUserAddingContent := \<not> isUserAddingContent s\<rparr>"
| "profile_step s ChangingAvatarToggled = s\<lparr>isUserChangingAvatar := \<not> isUserChangingAvatar s\<rparr>"
| "profile_step s SessionWithoutId = s\<lparr>isUserChangingSettings := False\<rparr>"

definition profile_run :: "Profile \<Rightarrow> profile_event list \<Rightarrow> Profile" where
  "profile_run s evs = foldl profile_step s evs"

text \<open>
  The stored snapshot, when there is one, has a truthy \<open>username\<close>: \<open>fetchData\<close> is
  the only writer of \<open>userData\<close> and stores nothing else.
\<close>

definition snapshot_ok :: "Profile \<Rightarrow> bool" where
  "snapshot_ok s = (case userData s of None \<Rightarrow> True | Some d \<Rightarrow> \<not> falsy (username d))"


section \<open>Sample inputs\<close>

definition alice :: UserInfo where
  "alice = \<lparr>info_id = 7, info_username = ''alice''\<rparr>"

definition bob :: UserInfo where
  "bob = \<lparr>info_id = 8, info_username = ''bob''\<rparr>"

text \<open>A server that answers every request with the same status, verdict and user.\<close>

definition answering :: "int \<Rightarrow> bool \<Rightarrow> UserInfo option \<Rightarrow> auth_api" where
  "answering status ok info =
     \<lparr>register = (\<lambda>_ _ _. status), login = (\<lambda>_ _. status), verify2FA = (\<lambda>_ _. ok),
      getUserInfo = info\<rparr>"

definition login_form :: "string \<Rightarrow> string \<Rightarrow> AuthModal" where
  "login_form e p = initial_AuthModal\<lparr>passwordRef := Some p, email := e\<rparr>"

definition register_form :: "string \<Rightarrow> string \<Rightarrow> string \<Rightarrow> string \<Rightarrow> AuthModal" where
  "register_form u e p r =
     initial_AuthModal\<lparr>usernameRef := Some u, passwordRef := Some p,
       repeatPasswordRef := Some r, email := e, isUserRegistering := True\<rparr>"

definition challenge_form :: "string \<Rightarrow> string \<Rightarrow> AuthModal" where
  "challenge_form e code = initial_AuthModal\<lparr>email := e, isTwoFAEnabled := True, twoFACode := code\<rparr>"

definition carol_profile :: ProfileInterface where
  "carol_profile = \<lparr>username = Some ''carol'', description = Some ''hello''\<rparr>"

definition nameless_profile :: ProfileInterface where
  "nameless_profile = \<lparr>username = None, description = Some ''hello''\<rparr>"

definition serving :: "ProfileInterface \<Rightarrow> bool \<Rightarrow> bool \<Rightarrow> bool \<Rightarrow> profile_api" where
  "serving data settings_ok avatar_ok answer =
     \<lparr>getUserProfile = (\<lambda>_. data), updateSettings = (\<lambda>_ _. settings_ok),
      updateAvatar = (\<lambda>_. avatar_ok), confirm = (\<lambda>_. answer)\<rparr>"

text \<open>The owner's page in editing mode, with the given form contents and pending blob.\<close>

definition editing :: "string \<Rightarrow> string \<Rightarrow> blob option \<Rightarrow> Profile" where
  "editing u d b =
     (initial_Profile 3)\<lparr>userData := Some carol_profile, isUserChangingSettings := True,
       avatarBlob := b, usernameRef' := Some u, descriptionRef := Some d\<rparr>"

section \<open>Auth modal: validation\<close>

lemma network_calls_Nil: "network_calls [] = []"
  by (simp add: network_calls_def)

lemma handleLogin_guard:
  "email s = [] \<or> falsy (passwordRef s) \<Longrightarrow> handleLogin api s = (s, [])"
  by (simp add: handleLogin_def)

lemma handleRegister_guard:
  "falsy (usernameRef s) \<or> email s = [] \<or> falsy (passwordRef s) \<Longrightarrow>
   handleRegister api s = (s, [])"
  by (simp add: handleRegister_def)

lemma handleRegister_mismatch:
  assumes "\<not> falsy (usernameRef s)" "email s \<noteq> []" "\<not> falsy (passwordRef s)"
    and "passwordRef s \<noteq> repeatPasswordRef s"
  shows "handleRegister api s = (s, [ToastError ''Passwords do not match'' Fresh])"
  using assms by (simp add: handleRegister_def)

text \<open>
  C1, as stated, fails for the password and the username: a value that holds only
  whitespace is a non-empty string, which is truthy, so the guards let it through. With
  a well-formed email address, a login whose password is \<open>" "\<close> calls \<open>login\<close>, and
  a registration whose username is \<open>" "\<close> calls \<open>register\<close>. (The email is typed
  into inputs of \<open>type="email"\<close>, so the inputs here keep an ordinary address.)
\<close>

theorem whitespace_fields_reach_the_network:
  "network_calls (snd (handleLogin (answering 200 True None) (login_form ''a@b.c'' '' '')))
     = [NetLogin ''a@b.c'' '' '']
   \<and> network_calls
       (snd (handleRegister (answering 201 True None)
          (register_form '' '' ''a@b.c'' ''pw'' ''pw'')))
     = [NetRegister '' '' ''a@b.c'' ''pw'']"
  by (simp add: handleLogin_def handleRegister_def answering_def login_form_def
      register_form_def initial_AuthModal_def network_calls_def propagate_and_close_def)

text \<open>
  C1 (amended): a call of \<open>handleLogin\<close> in which the email or the password is empty,
  and a call of \<open>handleRegister\<close> in which the username, the email or the password is
  empty, issues no network call; the handler returns at once, with no effect at all and
  the state as it was.
\<close>

theorem empty_fields_issue_no_call:
  "(email s = [] \<or> falsy (passwordRef s) \<longrightarrow>
      network_calls (snd (handleLogin api s)) = [] \<and> handleLogin api s = (s, []))
   \<and> (falsy (usernameRef s) \<or> email s = [] \<or> falsy (passwordRef s) \<longrightarrow>
      network_calls (snd (handleRegister api s)) = [] \<and> handleRegister api s = (s, []))"
  by (simp add: handleLogin_guard handleRegister_guard network_calls_Nil)

theorem empty_fields_issue_no_call_witness:
  "falsy (passwordRef (login_form ''a@b.c'' []))
   \<and> network_calls (snd (handleLogin (answering 200 True (Some alice)) (login_form ''a@b.c'' []))) = []
   \<and> falsy (usernameRef (register_form [] ''a@b.c'' ''pw'' ''pw''))
   \<and> network_calls
       (snd (handleRegister (answering 201 True None) (register_form [] ''a@b.c'' ''pw'' ''pw'')))
     = []"
  using empty_fields_issue_no_call
    [of "login_form ''a@b.c'' []" "answering 200 True (Some alice)"]
    empty_fields_issue_no_call
    [of "register_form [] ''a@b.c'' ''pw'' ''pw''" "answering 201 True None"]
  by (simp add: login_form_def register_form_def initial_AuthModal_def network_calls_Nil)

text \<open>
  C2, as stated, fails in its second half: the emptiness guard comes first and returns
  silently, so a registration with an empty username and two different passwords shows
  no notice at all.
\<close>

theorem mismatch_behind_empty_field_is_silent:
  "passwordRef (register_form [] ''a@b.c'' ''pw'' ''other'')
     \<noteq> repeatPasswordRef (register_form [] ''a@b.c'' ''pw'' ''other'')
   \<and> snd (handleRegister (answering 201 True None) (register_form [] ''a@b.c'' ''pw'' ''other''))
     = []"
  by (simp add: handleRegister_def register_form_def initial_AuthModal_def)

text \<open>
  C2 (amended): a call of \<open>handleRegister\<close> in which the password differs from the
  repeated password never calls \<open>register\<close>; the mismatch notice is shown exactly when
  the username, the email and the password are all non-empty, and then it is the only
  effect.
\<close>

theorem mismatch_never_registers:
  assumes "passwordRef s \<noteq> repeatPasswordRef s"
  shows "network_calls (snd (handleRegister api s)) = []
    \<and> (ToastError ''Passwords do not match'' Fresh \<in> set (snd (handleRegister api s)))
        = (\<not> falsy (usernameRef s) \<and> email s \<noteq> [] \<and> \<not> falsy (passwordRef s))
    \<and> fst (handleRegister api s) = s"
proof (cases "falsy (usernameRef s) \<or> email s = [] \<or> falsy (passwordRef s)")
  case True
  then have "handleRegister api s = (s, [])"
    by (rule handleRegister_guard)
  with True show ?thesis
    by (auto simp: network_calls_Nil)
next
  case False
  with assms have "handleRegister api s = (s, [ToastError ''Passwords do not match'' Fresh])"
    by (simp add: handleRegister_mismatch)
  with False show ?thesis
    by (simp add: network_calls_def)
qed

theorem mismatch_never_registers_witness:
  "passwordRef (register_form ''dave'' ''a@b.c'' ''pw'' ''other'')
     \<noteq> repeatPasswordRef (register_form ''dave'' ''a@b.c'' ''pw'' ''other'')
   \<and> network_calls
       (snd (handleRegister (answering 201 True None)
          (register_form ''dave'' ''a@b.c'' ''pw'' ''other''))) = []
   \<and> ToastError ''Passwords do not match'' Fresh
       \<in> set (snd (handleRegister (answering 201 True None)
          (register_form ''dave'' ''a@b.c'' ''pw'' ''other'')))"
  using mismatch_never_registers
    [of "register_form ''dave'' ''a@b.c'' ''pw'' ''other''" "answering 201 True None"]
  by (simp add: register_form_def initial_AuthModal_def)

section \<open>Auth modal: the answers of the server\<close>

lemma handleLogin_600:
  assumes "email s \<noteq> []" "passwordRef s = Some p" "p \<noteq> []" "login api (email s) p = 600"
  shows "handleLogin api s =
    (s\<lparr>isTwoFAEnabled := True\<rparr>,
     [ToastLoading ''Logging in...'', NetLogin (email s) p, ToastDismiss])"
  using assms by (simp add: handleLogin_def)

lemma handleLogin_200:
  assumes "email s \<noteq> []" "passwordRef s = Some p" "p \<noteq> []" "login api (email s) p = 200"
  shows "handleLogin api s =
    (s, [ToastLoading ''Logging in...'', NetLogin (email s) p,
         ToastSuccess ''Successfully logged in'' Loading_id] @ propagate_and_close api)"
  using assms by (simp add: handleLogin_def)

lemma submit2FA_rejected:
  assumes "length (twoFACode s) = 6" "\<not> verify2FA api (email s) (twoFACode s)"
  shows "submit2FA api s =
    (s, [ToastLoading ''Logging in...'', NetVerify2FA (email s) (twoFACode s)])"
  using assms by (simp add: submit2FA_def)

text \<open>
  C3, as stated, fails where \<open>getUserInfo\<close> returns \<open>null\<close>: \<open>updateUser\<close> is
  guarded by \<open>if (info)\<close>, so the session is not written and keeps the value it had,
  which is not what was fetched. Here the login answers 200, nothing is fetched, and a
  session that held \<open>bob\<close> still holds \<open>bob\<close>; the modal is closed all the same.
\<close>

theorem login_ok_without_user_info_keeps_session:
  "login (answering 200 True None) ''a@b.c'' ''pw'' = 200
   \<and> session_after (snd (handleLogin (answering 200 True None) (login_form ''a@b.c'' ''pw'')))
        (Some bob) = Some bob
   \<and> session_after (snd (handleLogin (answering 200 True None) (login_form ''a@b.c'' ''pw'')))
        (Some bob) \<noteq> getUserInfo (answering 200 True None)
   \<and> filter is_UpdateUser
        (snd (handleLogin (answering 200 True None) (login_form ''a@b.c'' ''pw''))) = []"
  by (simp add: handleLogin_def answering_def login_form_def initial_AuthModal_def
      propagate_and_close_def)

text \<open>
  C3 (amended): whenever \<open>handleLogin\<close> receives status 200, the auth modal is closed;
  when \<open>getUserInfo\<close> returns a \<open>UserInfo\<close>, \<open>updateUser\<close> is called once, with it,
  and the session value equals it; when \<open>getUserInfo\<close> returns nothing, \<open>updateUser\<close>
  is not called and the session value is unchanged.
\<close>

theorem login_ok_updates_session_and_closes:
  assumes "email s \<noteq> []" "passwordRef s = Some p" "p \<noteq> []" "login api (email s) p = 200"
  shows "CloseModal \<in> set (snd (handleLogin api s))
    \<and> filter is_UpdateUser (snd (handleLogin api s))
        = (case getUserInfo api of Some info \<Rightarrow> [UpdateUser info] | None \<Rightarrow> [])
    \<and> session_after (snd (handleLogin api s)) sess
        = (case getUserInfo api of Some info \<Rightarrow> Some info | None \<Rightarrow> sess)"
  unfolding handleLogin_200 [OF assms]
  by (simp add: propagate_and_close_def split: option.split)

theorem login_ok_updates_session_and_closes_witness:
  "login (answering 200 True (Some alice)) (email (login_form ''a@b.c'' ''pw'')) ''pw'' = 200
   \<and> CloseModal
       \<in> set (snd (handleLogin (answering 200 True (Some alice)) (login_form ''a@b.c'' ''pw'')))
   \<and> session_after
        (snd (handleLogin (answering 200 True (Some alice)) (login_form ''a@b.c'' ''pw'')))
        (Some bob) = Some alice"
  using login_ok_updates_session_and_closes
    [of "login_form ''a@b.c'' ''pw''" "''pw''" "answering 200 True (Some alice)" "Some bob"]
  by (simp add: answering_def login_form_def initial_AuthModal_def)

text \<open>
  C4: whenever \<open>handleLogin\<close> receives status 600 while the login form is shown, the
  modal shows the 2FA challenge afterwards, and no notice of success or of failure is
  among the effects (the loading toast is dismissed).
\<close>

theorem login_600_opens_challenge:
  assumes "modal_view_of s = Login"
    and "email s \<noteq> []" "passwordRef s = Some p" "p \<noteq> []" "login api (email s) p = 600"
  shows "modal_view_of (fst (handleLogin api s)) = TwoFactorChallenge
    \<and> notices (snd (handleLogin api s)) = []
    \<and> snd (handleLogin api s)
        = [ToastLoading ''Logging in...'', NetLogin (email s) p, ToastDismiss]"
  unfolding handleLogin_600 [OF assms(2-5)]
  by (simp add: modal_view_of_def notices_def)

theorem login_600_opens_challenge_witness:
  "modal_view_of (login_form ''a@b.c'' ''pw'') = Login
   \<and> login (answering 600 True None) (email (login_form ''a@b.c'' ''pw'')) ''pw'' = 600
   \<and> modal_view_of (fst (handleLogin (answering 600 True None) (login_form ''a@b.c'' ''pw'')))
       = TwoFactorChallenge
   \<and> notices (snd (handleLogin (answering 600 True None) (login_form ''a@b.c'' ''pw''))) = []"
  using login_600_opens_challenge
    [of "login_form ''a@b.c'' ''pw''" "''pw''" "answering 600 True None"]
  by (simp add: answering_def login_form_def initial_AuthModal_def modal_view_of_def
      notices_def)

text \<open>
  C5: a call of \<open>submit2FA\<close> with a code of length 6 that \<open>verify2FA\<close> rejects does
  nothing beyond the loading toast and the verification call: the state is as it was,
  the modal is not closed, \<open>updateUser\<close> is not called (the session value is
  unchanged), and no notice of success or of failure is shown.
\<close>

theorem rejected_2fa_code_does_nothing:
  assumes "length (twoFACode s) = 6" "\<not> verify2FA api (email s) (twoFACode s)"
  shows "fst (submit2FA api s) = s
    \<and> CloseModal \<notin> set (snd (submit2FA api s))
    \<and> filter is_UpdateUser (snd (submit2FA api s)) = []
    \<and> session_after (snd (submit2FA api s)) sess = sess
    \<and> notices (snd (submit2FA api s)) = []
    \<and> snd (submit2FA api s)
        = [ToastLoading ''Logging in...'', NetVerify2FA (email s) (twoFACode s)]"
  unfolding submit2FA_rejected [OF assms]
  by (simp add: notices_def)

theorem rejected_2fa_code_does_nothing_witness:
  "length (twoFACode (challenge_form ''a@b.c'' ''123456'')) = 6
   \<and> \<not> verify2FA (answering 600 False (Some alice)) ''a@b.c'' ''123456''
   \<and> fst (submit2FA (answering 600 False (Some alice)) (challenge_form ''a@b.c'' ''123456''))
       = challenge_form ''a@b.c'' ''123456''
   \<and> session_after
        (snd (submit2FA (answering 600 False (Some alice)) (challenge_form ''a@b.c'' ''123456'')))
        None = None
   \<and> notices
        (snd (submit2FA (answering 600 False (Some alice)) (challenge_form ''a@b.c'' ''123456'')))
       = []"
  using rejected_2fa_code_does_nothing
    [of "challenge_form ''a@b.c'' ''123456''" "answering 600 False (Some alice)" None]
  by (simp add: answering_def challenge_form_def initial_AuthModal_def notices_def)

section \<open>The wizard's stage\<close>

lemma perform_stage_range:
  assumes "stage s \<in> {1, 2, 3}" "available s w"
  shows "stage (perform s w) \<in> {1, 2, 3}"
  using assms by (cases w) auto

lemma run_wizard_stage_range:
  "stage s \<in> {1, 2, 3} \<Longrightarrow> run_wizard s ws = Some s' \<Longrightarrow> stage s' \<in> {1, 2, 3}"
proof (induction ws arbitrary: s)
  case Nil
  then show ?case by simp
next
  case (Cons w ws)
  from Cons.prems(2) have av: "available s w" and rest: "run_wizard (perform s w) ws = Some s'"
    by (simp_all split: if_splits)
  from Cons.prems(1) av have "stage (perform s w) \<in> {1, 2, 3}"
    by (rule perform_stage_range)
  then show ?case
    using rest by (rule Cons.IH)
qed

text \<open>
  C9: from the initial stage 1, every sequence of available operations (indicator
  clicks, Back, Next, Create) leaves the stage in \<open>{1, 2, 3}\<close>. In the state reached,
  Back is available exactly when the stage is not 1 and decrements it, Next is available
  exactly when the stage is not 3 and increments it, Create leaves it alone, and an
  indicator click sets it to 1, 2 or 3.
\<close>

theorem wizard_stage_stays_in_range:
  assumes "run_wizard initial_NewEnviroment ws = Some s"
  shows "stage s \<in> {1, 2, 3}
    \<and> available s Back = (stage s \<noteq> 1) \<and> stage (perform s Back) = stage s - 1
    \<and> available s Next = (stage s \<noteq> 3) \<and> stage (perform s Next) = stage s + 1
    \<and> stage (perform s Create) = stage s
    \<and> available s Indicator1 \<and> stage (perform s Indicator1) = 1
    \<and> available s Indicator2 \<and> stage (perform s Indicator2) = 2
    \<and> available s Indicator3 \<and> stage (perform s Indicator3) = 3"
proof -
  have "stage initial_NewEnviroment \<in> {1, 2, 3}"
    by (simp add: initial_NewEnviroment_def)
  then have "stage s \<in> {1, 2, 3}"
    using assms by (rule run_wizard_stage_range)
  then show ?thesis by simp
qed

theorem wizard_stage_stays_in_range_witness:
  "run_wizard initial_NewEnviroment [Next, Next, Create, Back, Back, Indicator3, Back]
     = Some (initial_NewEnviroment\<lparr>stage := 2\<rparr>)
   \<and> stage (initial_NewEnviroment\<lparr>stage := 2\<rparr>) \<in> {1, 2, 3}
   \<and> run_wizard initial_NewEnviroment [Back] = None
   \<and> run_wizard initial_NewEnviroment [Indicator3, Next] = None"
  using wizard_stage_stays_in_range
    [of "[Next, Next, Create, Back, Back, Indicator3, Back]" "initial_NewEnviroment\<lparr>stage := 2\<rparr>"]
  by (simp add: initial_NewEnviroment_def)

section \<open>Profile page: the snapshot\<close>

lemma fetchData_snapshot_ok: "snapshot_ok s \<Longrightarrow> snapshot_ok (fst (fetchData api s))"
  by (simp add: fetchData_def snapshot_ok_def Let_def)



lemma handleReactingWithSettings_userData:
  "userData (fst (handleReactingWithSettings api s)) = userData s"
  by (simp add: handleReactingWithSettings_def split: option.split)

lemma saveAvatarImage_userData: "userData (saveAvatarImage produced url s) = userData s"
  by (cases produced) (simp_all add: saveAvatarImage_def)

lemma handleSaveSettings_snapshot_ok:
  assumes "snapshot_ok s"
  shows "snapshot_ok (fst (handleSaveSettings api s))"
proof -
  have "fst (handleSaveSettings api s) = s
      \<or> fst (handleSaveSettings api s) = s\<lparr>isUserChangingSettings := False\<rparr>
      \<or> fst (handleSaveSettings api s) = (fst (fetchData api s))\<lparr>isUserChangingSettings := False\<rparr>"
    by (simp add: handleSaveSettings_def Let_def split: option.split prod.split)
  moreover have "snapshot_ok (fst (fetchData api s))"
    using assms by (rule fetchData_snapshot_ok)
  ultimately show ?thesis
    using assms by (auto simp: snapshot_ok_def)
qed

lemma profile_step_snapshot_ok:
  assumes "snapshot_ok s"
  shows "snapshot_ok (profile_step s ev)"
proof (cases ev)
  case (Mounted api)
  with assms show ?thesis by (simp add: fetchData_snapshot_ok)
next
  case (SettingsClicked api)
  with assms show ?thesis
    by (simp add: snapshot_ok_def handleReactingWithSettings_userData)
next
  case (SaveClicked api)
  with assms show ?thesis by (simp add: handleSaveSettings_snapshot_ok)
next
  case (CropConfirmed produced url)
  with assms show ?thesis
    by (simp add: snapshot_ok_def saveAvatarImage_userData)
qed (use assms in \<open>simp_all add: snapshot_ok_def\<close>)

text \<open>Every state the page can reach after it was mounted has a well-formed snapshot.\<close>

lemma profile_run_snapshot_ok:
  "snapshot_ok s \<Longrightarrow> snapshot_ok (profile_run s evs)"
  unfolding profile_run_def
  by (induction evs arbitrary: s) (simp_all add: profile_step_snapshot_ok)

lemma reachable_snapshot_ok: "snapshot_ok (profile_run (initial_Profile uid) evs)"
  by (rule profile_run_snapshot_ok) (simp add: snapshot_ok_def initial_Profile_def)

text \<open>
  C8: \<open>fetchData\<close> replaces the snapshot with the result of \<open>getUserProfile\<close> exactly
  when the result's \<open>username\<close> is truthy. When it is missing or falsy the stored
  snapshot is not replaced (so a snapshot that was unset stays unset), and in both cases
  the only effect is the network call: no error is signalled.
\<close>

theorem fetchData_replaces_snapshot_iff_username:
  "userData (fst (fetchData api s))
     = (if falsy (username (getUserProfile api (userId s))) then userData s
        else Some (getUserProfile api (userId s)))
   \<and> (falsy (username (getUserProfile api (userId s))) \<longrightarrow> fst (fetchData api s) = s)
   \<and> (falsy (username (getUserProfile api (userId s))) \<and> userData s = None
        \<longrightarrow> userData (fst (fetchData api s)) = None)
   \<and> snd (fetchData api s) = [NetGetUserProfile (userId s)]
   \<and> notices (snd (fetchData api s)) = []"
  by (simp add: fetchData_def Let_def notices_def)

theorem fetchData_replaces_snapshot_iff_username_witness:
  "falsy (username (getUserProfile (serving nameless_profile True True True) (userId (initial_Profile 3))))
   \<and> userData (initial_Profile 3) = None
   \<and> userData (fst (fetchData (serving nameless_profile True True True) (initial_Profile 3))) = None
   \<and> userData (fst (fetchData (serving carol_profile True True True) (initial_Profile 3)))
       = Some carol_profile"
  using fetchData_replaces_snapshot_iff_username
    [of "serving nameless_profile True True True" "initial_Profile 3"]
    fetchData_replaces_snapshot_iff_username
    [of "serving carol_profile True True True" "initial_Profile 3"]
  by (simp add: serving_def nameless_profile_def carol_profile_def initial_Profile_def)

section \<open>Profile page: saving and leaving the settings form\<close>

lemma snapshot_username_nonempty:
  assumes "snapshot_ok s" "snapshot_username s = Some u"
  shows "u \<noteq> []"
  using assms by (auto simp: snapshot_ok_def snapshot_username_def split: option.splits)

lemma handleSaveSettings_unchanged:
  assumes "usernameRef' s = Some u" "descriptionRef s = Some d" "u \<noteq> []"
    and "snapshot_username s = Some u" "snapshot_description s = Some d" "avatarBlob s = None"
  shows "handleSaveSettings api s = (s\<lparr>isUserChangingSettings := False\<rparr>, [])"
  using assms by (simp add: handleSaveSettings_def)

lemma handleSaveSettings_empty:
  assumes "usernameRef' s = Some []" "descriptionRef s = Some d"
  shows "handleSaveSettings api s = (s, [ToastError ''Username can't be empty!'' Fresh])"
  using assms by (simp add: handleSaveSettings_def)







text \<open>
  C6: a call of \<open>handleSaveSettings\<close> in which the edited username equals the snapshot
  username, the edited description equals the snapshot description and no avatar blob is
  pending issues no network call (it has no effect at all) and returns the page to
  viewing mode. The call is made from a state the page can be in (\<open>snapshot_ok\<close>, which
  \<open>reachable_snapshot_ok\<close> shows of every state reached from the initial one): the
  stored snapshot has a non-empty username.
\<close>

theorem saveSettings_unchanged_is_noop:
  assumes "snapshot_ok s"
    and "usernameRef' s = Some u" "descriptionRef s = Some d"
    and "snapshot_username s = Some u" "snapshot_description s = Some d"
    and "avatarBlob s = None"
  shows "network_calls (snd (handleSaveSettings api s)) = []
    \<and> snd (handleSaveSettings api s) = []
    \<and> \<not> isUserChangingSettings (fst (handleSaveSettings api s))"
proof -
  from assms(1,4) have "u \<noteq> []"
    by (rule snapshot_username_nonempty)
  with assms have "handleSaveSettings api s = (s\<lparr>isUserChangingSettings := False\<rparr>, [])"
    by (simp add: handleSaveSettings_unchanged)
  then show ?thesis
    by (simp add: network_calls_Nil)
qed

theorem saveSettings_unchanged_is_noop_witness:
  "snapshot_ok (editing ''carol'' ''hello'' None)
   \<and> snapshot_username (editing ''carol'' ''hello'' None) = Some ''carol''
   \<and> snapshot_description (editing ''carol'' ''hello'' None) = Some ''hello''
   \<and> isUserChangingSettings (editing ''carol'' ''hello'' None)
   \<and> network_calls
       (snd (handleSaveSettings (serving carol_profile True True True)
          (editing ''carol'' ''hello'' None))) = []
   \<and> \<not> isUserChangingSettings
       (fst (handleSaveSettings (serving carol_profile True True True)
          (editing ''carol'' ''hello'' None)))"
  using saveSettings_unchanged_is_noop
    [of "editing ''carol'' ''hello'' None" "''carol''" "''hello''"
        "serving carol_profile True True True"]
  by (simp add: editing_def initial_Profile_def carol_profile_def snapshot_ok_def
      snapshot_username_def snapshot_description_def network_calls_Nil)

text \<open>
  C7: a call of \<open>handleSaveSettings\<close> in which the edited username is the empty string
  shows an error notice, leaves the page in editing mode (the state is untouched) and
  issues no network call, whatever the description and the pending avatar blob are.
\<close>

theorem saveSettings_empty_username_is_refused:
  assumes "isUserChangingSettings s"
    and "usernameRef' s = Some []" "descriptionRef s = Some d"
  shows "snd (handleSaveSettings api s) = [ToastError ''Username can't be empty!'' Fresh]
    \<and> network_calls (snd (handleSaveSettings api s)) = []
    \<and> isUserChangingSettings (fst (handleSaveSettings api s))
    \<and> fst (handleSaveSettings api s) = s"
  unfolding handleSaveSettings_empty [OF assms(2,3)]
  using assms(1) by (simp add: network_calls_def)

theorem saveSettings_empty_username_is_refused_witness:
  "isUserChangingSettings (editing [] ''x'' (Some (Blob [1, 2])))
   \<and> usernameRef' (editing [] ''x'' (Some (Blob [1, 2]))) = Some []
   \<and> snd (handleSaveSettings (serving carol_profile True True True)
          (editing [] ''x'' (Some (Blob [1, 2]))))
       = [ToastError ''Username can't be empty!'' Fresh]
   \<and> isUserChangingSettings
       (fst (handleSaveSettings (serving carol_profile True True True)
          (editing [] ''x'' (Some (Blob [1, 2])))))"
  using saveSettings_empty_username_is_refused
    [of "editing [] ''x'' (Some (Blob [1, 2]))" "''x''" "serving carol_profile True True True"]
  by (simp add: editing_def initial_Profile_def)



end
